theory Spec2Isabelle
  imports Complex_Main "HOL-Library.Sublist"
begin

section \<open>Python values and their string form\<close>

text \<open>
  The vignettes of \<^verbatim>\<open>class_concepts.py\<close> format values into f-strings.  A
  replacement field \<^verbatim>\<open>{v}\<close> inserts \<^verbatim>\<open>format(v, "")\<close>, which for the
  built-in types below is \<^verbatim>\<open>str(v)\<close>.  Integers are Python's unbounded ints.
\<close>

fun str_nat :: "nat \<Rightarrow> string" where
  "str_nat n =
     (if n < 10 then [char_of (48 + n)]
      else str_nat (n div 10) @ [char_of (48 + n mod 10)])"

declare str_nat.simps [simp del]

definition str_int :: "int \<Rightarrow> string" where
  "str_int i = (if i < 0 then CHR ''-'' # str_nat (nat (- i)) else str_nat (nat i))"

datatype pyval = VStr string | VInt int | VBool bool | VNone

fun py_str :: "pyval \<Rightarrow> string" where
  "py_str (VStr s) = s"
| "py_str (VInt i) = str_int i"
| "py_str (VBool b) = (if b then ''True'' else ''False'')"
| "py_str VNone = ''None''"

section \<open>12. Static methods: TemperatureConverter\<close>

text \<open>
  \<^verbatim>\<open>return (c * 9/5) + 32\<close> and \<^verbatim>\<open>return (f - 32) * 5/9\<close>, with \<^verbatim>\<open>/\<close> Python's
  true division.  The arithmetic is taken exactly, over the reals; \<^verbatim>\<open>c * 9/5\<close> is
  \<^verbatim>\<open>(c * 9) / 5\<close> in Python as it is in HOL.
\<close>

definition celsius_to_fahrenheit :: "real \<Rightarrow> real" where
  "celsius_to_fahrenheit c = (c * 9 / 5) + 32"


definition is_freezing :: "real \<Rightarrow> bool" where
  "is_freezing celsius = (celsius \<le> 0)"

section \<open>Errors, console output and the file system\<close>

text \<open>
  The built-in exceptions the vignettes can raise.  A function that can raise returns
  \<open>pyerror + 'a\<close>, with \<open>Inl\<close> the exception.
\<close>

datatype pyerror = AttributeError | NameError | ValueError | StopIteration

text \<open>
  The outside world of the script: the console, as the list of the texts given to
  \<^verbatim>\<open>print\<close> (one entry per call, without the newline \<^verbatim>\<open>print\<close> appends), and the
  files of the working directory, as a map from path to content.
\<close>

record world =
  stdout :: "string list"
  files :: "string \<rightharpoonup> string"

definition print :: "string \<Rightarrow> world \<Rightarrow> world" where
  "print s w = w\<lparr>stdout := stdout w @ [s]\<rparr>"

text \<open>
  A file object, as \<^verbatim>\<open>open(path, "a")\<close> returns it.  Opening for append creates
  the file, empty, when it does not exist, and keeps the content of one that does.
  Opening is taken to succeed (a writable working directory).
\<close>

record file_object =
  file_path :: string
  file_closed :: bool

definition open_append :: "string \<Rightarrow> world \<Rightarrow> file_object \<times> world" where
  "open_append p w =
     (\<lparr>file_path = p, file_closed = False\<rparr>,
      (case files w p of
         None \<Rightarrow> w\<lparr>files := (files w)(p \<mapsto> [])\<rparr>
       | Some c \<Rightarrow> w))"

definition file_write :: "file_object \<Rightarrow> string \<Rightarrow> world \<Rightarrow> pyerror + world" where
  "file_write f s w =
     (if file_closed f then Inl ValueError
      else Inr (w\<lparr>files := (files w)(file_path f \<mapsto> (case files w (file_path f) of
                                                       None \<Rightarrow> s | Some c \<Rightarrow> c @ s))\<rparr>))"

definition file_close :: "file_object \<Rightarrow> file_object" where
  "file_close f = f\<lparr>file_closed := True\<rparr>"

section \<open>1. Using self: Student\<close>

record Student =
  name :: pyval
  marks :: pyval

definition Student_init :: "pyval \<Rightarrow> pyval \<Rightarrow> Student" where
  "Student_init name' marks' = \<lparr>name = name', marks = marks'\<rparr>"

text \<open>\<^verbatim>\<open>return f"Student: {self.name}, Marks: {self.marks}"\<close>\<close>

definition display :: "Student \<Rightarrow> string" where
  "display self = ''Student: '' @ py_str (name self) @ '', Marks: '' @ py_str (marks self)"

section \<open>2. Using cls: Counter, and the second class of that name\<close>

text \<open>
  The module defines two classes named \<^verbatim>\<open>Counter\<close>: the one of section 2 (line 30),
  with the class variable \<^verbatim>\<open>count\<close> and the class method \<^verbatim>\<open>get_count\<close>, and the
  callable one of section 19 (line 628), with the instance attributes \<^verbatim>\<open>count\<close> and
  \<^verbatim>\<open>values\<close>.  A \<^verbatim>\<open>class\<close> statement binds its name in the module's globals, so the
  globals are modelled as a map from names to classes, and every use of the name
  \<^verbatim>\<open>Counter\<close> inside a function body looks it up there when the body runs.
\<close>

datatype pyclass = Counter_cls | Counter2_cls

type_synonym globals = "string \<rightharpoonup> pyclass"

definition class_statement :: "string \<Rightarrow> pyclass \<Rightarrow> globals \<Rightarrow> globals" where
  "class_statement n c g = g(n \<mapsto> c)"

text \<open>The globals once line 46 has run, and once the whole module has run.\<close>

definition globals_after_section_2 :: globals where
  "globals_after_section_2 = class_statement ''Counter'' Counter_cls Map.empty"

definition module_globals :: globals where
  "module_globals = class_statement ''Counter'' Counter2_cls globals_after_section_2"

text \<open>
  The data attribute \<^verbatim>\<open>count\<close> of each class object.  The body of the first class
  runs \<^verbatim>\<open>count = 0\<close>; the body of the second class assigns no class variable.
\<close>

type_synonym class_store = "pyclass \<rightharpoonup> int"

definition initial_class_store :: class_store where
  "initial_class_store = [Counter_cls \<mapsto> 0]"

definition class_has_get_count :: "pyclass \<Rightarrow> bool" where
  "class_has_get_count c = (case c of Counter_cls \<Rightarrow> True | Counter2_cls \<Rightarrow> False)"

text \<open>
  \<^verbatim>\<open>Counter.count += 1\<close> in \<^verbatim>\<open>__init__\<close> of the first class: the name is looked up
  in the globals, the attribute is read from that class and written back to it.
\<close>

definition Counter_init :: "globals \<Rightarrow> class_store \<Rightarrow> pyerror + class_store" where
  "Counter_init g cs =
     (case g ''Counter'' of
        None \<Rightarrow> Inl NameError
      | Some c \<Rightarrow>
          (case cs c of
             None \<Rightarrow> Inl AttributeError
           | Some n \<Rightarrow> Inr (cs(c \<mapsto> n + 1))))"

text \<open>\<^verbatim>\<open>return cls.count\<close>\<close>

definition get_count :: "pyclass \<Rightarrow> class_store \<Rightarrow> pyerror + int" where
  "get_count cls cs = (case cs cls of None \<Rightarrow> Inl AttributeError | Some n \<Rightarrow> Inr n)"

text \<open>The second class: \<^verbatim>\<open>self.count = 0; self.values = []\<close>, and its methods (the
  field \<open>values'\<close> is the attribute \<^verbatim>\<open>values\<close>).\<close>

record Counter2 =
  count :: int
  values' :: "pyval list"

definition Counter2_init :: Counter2 where
  "Counter2_init = \<lparr>count = 0, values' = []\<rparr>"

definition Counter2_call :: "Counter2 \<Rightarrow> pyval \<Rightarrow> int \<times> Counter2" where
  "Counter2_call self v =
     (let self1 = (if v \<noteq> VNone then self\<lparr>values' := values' self @ [v]\<rparr> else self);
          self2 = self1\<lparr>count := count self1 + 1\<rparr>
      in (count self2, self2))"

definition get_values :: "Counter2 \<Rightarrow> pyval list" where
  "get_values self = values' self"

definition reset :: "Counter2 \<Rightarrow> Counter2" where
  "reset self = self\<lparr>count := 0, values' := []\<rparr>"

text \<open>An instance of either class; one of the first class has no attribute of its own.\<close>

datatype counter_instance = Counter_inst | Counter2_inst Counter2

definition class_of :: "counter_instance \<Rightarrow> pyclass" where
  "class_of obj = (case obj of Counter_inst \<Rightarrow> Counter_cls | Counter2_inst x \<Rightarrow> Counter2_cls)"

text \<open>The expression \<^verbatim>\<open>Counter()\<close>: look the name up and run that class's constructor.\<close>

definition new_Counter ::
  "globals \<Rightarrow> class_store \<Rightarrow> pyerror + (counter_instance \<times> class_store)" where
  "new_Counter g cs =
     (case g ''Counter'' of
        None \<Rightarrow> Inl NameError
      | Some Counter_cls \<Rightarrow>
          (case Counter_init g cs of
             Inl e \<Rightarrow> Inl e
           | Inr cs' \<Rightarrow> Inr (Counter_inst, cs'))
      | Some Counter2_cls \<Rightarrow> Inr (Counter2_inst Counter2_init, cs))"

text \<open>
  The expressions \<^verbatim>\<open>Counter.get_count()\<close> and \<^verbatim>\<open>obj.get_count()\<close>: the attribute
  is looked up on the class (of the object); a class method receives that class.
\<close>

definition class_get_count :: "pyclass \<Rightarrow> class_store \<Rightarrow> pyerror + int" where
  "class_get_count c cs = (if class_has_get_count c then get_count c cs else Inl AttributeError)"

definition Counter_get_count :: "globals \<Rightarrow> class_store \<Rightarrow> pyerror + int" where
  "Counter_get_count g cs =
     (case g ''Counter'' of None \<Rightarrow> Inl NameError | Some c \<Rightarrow> class_get_count c cs)"

definition instance_get_count :: "counter_instance \<Rightarrow> class_store \<Rightarrow> pyerror + int" where
  "instance_get_count obj cs = class_get_count (class_of obj) cs"

text \<open>
  Section 2 of \<^verbatim>\<open>main\<close> (lines 749 to 753): three constructions, then the count is
  printed.  An exception ends the section where it is raised.
\<close>

definition main_section_2 ::
  "globals \<Rightarrow> class_store \<Rightarrow> world \<Rightarrow> (pyerror + class_store) \<times> world" where
  "main_section_2 g cs w =
     (let w1 = print (CHR 0x0A # ''2. Using cls'') w in
      case new_Counter g cs of
        Inl e \<Rightarrow> (Inl e, w1)
      | Inr (counter1, cs1) \<Rightarrow>
      (case new_Counter g cs1 of
        Inl e \<Rightarrow> (Inl e, w1)
      | Inr (counter2, cs2) \<Rightarrow>
      (case new_Counter g cs2 of
        Inl e \<Rightarrow> (Inl e, w1)
      | Inr (counter3, cs3) \<Rightarrow>
      (case Counter_get_count g cs3 of
        Inl e \<Rightarrow> (Inl e, w1)
      | Inr n \<Rightarrow> (Inr cs3, print (''Total counters created: '' @ str_int n) w1)))))"

section \<open>6. Constructors and destructors: Logger\<close>

text \<open>
  \<^verbatim>\<open>log_file\<close> is \<open>None\<close> while the object has no such attribute
  (\<^verbatim>\<open>hasattr(self, 'log_file')\<close> is false); the constructor sets it.
\<close>

record Logger =
  log_file :: "file_object option"

definition Logger_init :: "world \<Rightarrow> Logger \<times> world" where
  "Logger_init w =
     (let w1 = print ''Logger object created'' w;
          (f, w2) = open_append ''log.txt'' w1
      in (\<lparr>log_file = Some f\<rparr>, w2))"

definition Logger_log :: "Logger \<Rightarrow> string \<Rightarrow> world \<Rightarrow> pyerror + world" where
  "Logger_log self message w =
     (case log_file self of
        None \<Rightarrow> Inl AttributeError
      | Some f \<Rightarrow> file_write f (message @ [CHR 0x0A]) w)"

definition destroy :: "Logger \<Rightarrow> world \<Rightarrow> Logger \<times> world" where
  "destroy self w =
     (let self1 = (case log_file self of
                     None \<Rightarrow> self
                   | Some f \<Rightarrow> self\<lparr>log_file := Some (file_close f)\<rparr>)
      in (self1, print ''Logger object destroyed'' w))"

text \<open>\<^verbatim>\<open>__del__\<close> has the body of \<^verbatim>\<open>destroy\<close>.\<close>

definition Logger_del :: "Logger \<Rightarrow> world \<Rightarrow> Logger \<times> world" where
  "Logger_del self w = destroy self w"

text \<open>Section 6 of \<^verbatim>\<open>main\<close> (lines 772 to 775), the demonstration of resource cleanup.\<close>

definition main_section_6 :: "world \<Rightarrow> Logger \<times> world" where
  "main_section_6 w =
     (let w1 = print (CHR 0x0A # ''6. Constructors and Destructors'') w;
          w2 = print ''Creating logger...'' w1;
          (logger, w3) = Logger_init w2
      in destroy logger w3)"

section \<open>16. Function decorators: log_function_call and say_hello\<close>




section \<open>17. Class decorators: singleton and DatabaseConnection\<close>

record DatabaseConnection =
  host :: pyval
  user :: pyval
  password :: pyval

definition DatabaseConnection_init ::
  "pyval \<Rightarrow> pyval \<Rightarrow> pyval \<Rightarrow> world \<Rightarrow> DatabaseConnection \<times> world" where
  "DatabaseConnection_init host' user' password' w =
     (\<lparr>host = host', user = user', password = password'\<rparr>,
      print (''Connecting to database at '' @ py_str host') w)"

definition query :: "DatabaseConnection \<Rightarrow> string \<Rightarrow> string" where
  "query self sql = ''Executing '' @ sql @ '' on '' @ py_str (host self)"

text \<open>
  Objects have identity: every \<^verbatim>\<open>DatabaseConnection\<close> object ever created lives in
  \<open>heap\<close>, and a reference to one is its index there.  \<open>instances\<close> is the
  dictionary of the closure that \<^verbatim>\<open>singleton\<close> returns, keyed by the decorated class.
\<close>

datatype decorated_class = DatabaseConnection_cls

type_synonym ref = nat

record singleton_state =
  heap :: "DatabaseConnection list"
  instances :: "decorated_class \<rightharpoonup> ref"

definition singleton :: singleton_state where
  "singleton = \<lparr>heap = [], instances = Map.empty\<rparr>"

text \<open>
  \<^verbatim>\<open>if cls not in instances: instances[cls] = cls(*args, **kwargs)\<close>, then
  \<^verbatim>\<open>return instances[cls]\<close>.  The arguments are those of the class's constructor.
\<close>

definition get_instance ::
  "decorated_class \<Rightarrow> pyval \<times> pyval \<times> pyval \<Rightarrow> singleton_state \<Rightarrow> world \<Rightarrow>
     (ref \<times> singleton_state) \<times> world" where
  "get_instance cls args st w =
     (case instances st cls of
        None \<Rightarrow>
          (case cls of DatabaseConnection_cls \<Rightarrow>
             (case args of (host', user', password') \<Rightarrow>
                (case DatabaseConnection_init host' user' password' w of (obj, w1) \<Rightarrow>
                   ((length (heap st),
                     st\<lparr>heap := heap st @ [obj],
                        instances := (instances st)(cls \<mapsto> length (heap st))\<rparr>),
                    w1))))
      | Some r \<Rightarrow> ((r, st), w))"

text \<open>A sequence of calls \<^verbatim>\<open>DatabaseConnection(host, user, password)\<close>, in order.\<close>

fun DatabaseConnection_calls ::
  "(pyval \<times> pyval \<times> pyval) list \<Rightarrow> singleton_state \<Rightarrow> world \<Rightarrow>
     (ref list \<times> singleton_state) \<times> world" where
  "DatabaseConnection_calls [] st w = (([], st), w)"
| "DatabaseConnection_calls (a # as) st w =
     (case get_instance DatabaseConnection_cls a st w of ((r, st1), w1) \<Rightarrow>
        (case DatabaseConnection_calls as st1 w1 of ((rs, st2), w2) \<Rightarrow> ((r # rs, st2), w2)))"

section \<open>18. Property decorators: Product\<close>

text \<open>
  The field \<open>underscore_price\<close> is the attribute \<^verbatim>\<open>_price\<close>; it is \<open>None\<close> once
  \<^verbatim>\<open>del self._price\<close> has removed the attribute.
\<close>

record Product =
  underscore_price :: "int option"

definition Product_init :: Product where
  "Product_init = \<lparr>underscore_price = Some 0\<rparr>"

definition price :: "Product \<Rightarrow> pyerror + int" where
  "price self = (case underscore_price self of None \<Rightarrow> Inl AttributeError | Some v \<Rightarrow> Inr v)"

definition price_setter :: "Product \<Rightarrow> int \<Rightarrow> world \<Rightarrow> Product \<times> world" where
  "price_setter self v w =
     (if v < 0 then (self, print ''Price cannot be negative'' w)
      else (self\<lparr>underscore_price := Some v\<rparr>, w))"


section \<open>20. A custom exception: InvalidAgeError and check_age\<close>

record InvalidAgeError =
  age :: int
  message :: string

definition InvalidAgeError_init :: "int \<Rightarrow> string \<Rightarrow> InvalidAgeError" where
  "InvalidAgeError_init age' message' = \<lparr>age = age', message = message'\<rparr>"

text \<open>\<^verbatim>\<open>return f"{self.message} (got {self.age})"\<close>\<close>

definition InvalidAgeError_str :: "InvalidAgeError \<Rightarrow> string" where
  "InvalidAgeError_str self = message self @ '' (got '' @ str_int (age self) @ '')''"

text \<open>\<^verbatim>\<open>raise InvalidAgeError(age)\<close> takes the default message of the constructor.\<close>

definition check_age :: "int \<Rightarrow> InvalidAgeError + bool" where
  "check_age a =
     (if a < 18 then Inl (InvalidAgeError_init a ''Age must be 18 or older'')
      else Inr True)"

section \<open>21. Iterables: CustomRange and CustomRangeIterator\<close>

record CustomRange =
  start :: int
  stop :: int
  step :: int

record CustomRangeIterator =
  current :: int
  stop :: int
  step :: int

definition CustomRange_init :: "int \<Rightarrow> int \<Rightarrow> int \<Rightarrow> CustomRange" where
  "CustomRange_init start' stop' step' = \<lparr>start = start', stop = stop', step = step'\<rparr>"

definition CustomRangeIterator_init :: "int \<Rightarrow> int \<Rightarrow> int \<Rightarrow> CustomRangeIterator" where
  "CustomRangeIterator_init start' stop' step' =
     \<lparr>current = start', stop = stop', step = step'\<rparr>"

definition CustomRange_iter :: "CustomRange \<Rightarrow> CustomRangeIterator" where
  "CustomRange_iter self =
     CustomRangeIterator_init (start self) (CustomRange.stop self) (CustomRange.step self)"

text \<open>\<^verbatim>\<open>__next__\<close>: the value and the advanced iterator, or \<^verbatim>\<open>StopIteration\<close>.\<close>

definition CustomRangeIterator_next ::
  "CustomRangeIterator \<Rightarrow> pyerror + (int \<times> CustomRangeIterator)" where
  "CustomRangeIterator_next self =
     (if (step self > 0 \<and> current self < stop self) \<or>
         (step self < 0 \<and> current self > stop self)
      then Inr (current self, self\<lparr>current := current self + step self\<rparr>)
      else Inl StopIteration)"

text \<open>
  Iteration, as a \<^verbatim>\<open>for\<close> loop or \<^verbatim>\<open>list(...)\<close> does it: \<^verbatim>\<open>__next__\<close> is called
  until it raises \<^verbatim>\<open>StopIteration\<close>, and the values it returned are collected.  The
  distance to \<^verbatim>\<open>stop\<close> shrinks with every value, so the loop ends.
\<close>

function exhaust :: "CustomRangeIterator \<Rightarrow> int list" where
  "exhaust it =
     (case CustomRangeIterator_next it of
        Inl e \<Rightarrow> []
      | Inr (v, it') \<Rightarrow> v # exhaust it')"
  by pat_completeness auto
termination
  by (relation "measure (\<lambda>it. if step it > 0 then nat (stop it - current it)
                               else nat (current it - stop it))")
     (auto simp: CustomRangeIterator_next_def split: if_splits)

declare exhaust.simps [simp del]

definition for_CustomRange :: "CustomRange \<Rightarrow> int list" where
  "for_CustomRange r = exhaust (CustomRange_iter r)"

text \<open>
  Python's built-in \<^verbatim>\<open>range(start, stop, step)\<close>, from the language reference: a
  zero step raises \<^verbatim>\<open>ValueError\<close>; otherwise the contents are \<open>r[i] = start + step*i\<close>
  for the \<open>i \<ge> 0\<close> with \<open>r[i] < stop\<close> (positive step) or \<open>r[i] > stop\<close> (negative
  step).  \<open>range_length\<close> is the number of such \<open>i\<close>.
\<close>

definition range_length :: "int \<Rightarrow> int \<Rightarrow> int \<Rightarrow> nat" where
  "range_length lo hi stp =
     (if stp > 0 \<and> lo < hi then nat (1 + (hi - 1 - lo) div stp)
      else if stp < 0 \<and> lo > hi then nat (1 + (lo - 1 - hi) div (- stp))
      else 0)"

definition py_range :: "int \<Rightarrow> int \<Rightarrow> int \<Rightarrow> pyerror + int list" where
  "py_range lo hi stp =
     (if stp = 0 then Inl ValueError
      else Inr (map (\<lambda>i. lo + stp * int i) [0..<range_length lo hi stp]))"

section \<open>Operations whose only effect is printing\<close>

text \<open>
  An operation on the world only prints when, whatever the world it runs in, it returns
  one and the same value, appends one and the same texts to the console, and leaves the
  rest of the world (the files) as it was.
\<close>

definition prints_only :: "(world \<Rightarrow> 'a \<times> world) \<Rightarrow> bool" where
  "prints_only f = (\<exists>r out. \<forall>w. f w = (r, w\<lparr>stdout := stdout w @ out\<rparr>))"

section \<open>Properties of the temperature conversions\<close>

text \<open>
  C4: \<^verbatim>\<open>TemperatureConverter.celsius_to_fahrenheit\<close> applied to 0 degrees Celsius
  returns 32 degrees Fahrenheit.
\<close>

theorem celsius_to_fahrenheit_zero: "celsius_to_fahrenheit 0 = 32"
  by (simp add: celsius_to_fahrenheit_def)


section \<open>Properties of Student\<close>

text \<open>
  C5: for every name and marks value, the string that \<^verbatim>\<open>display()\<close> returns for
  \<^verbatim>\<open>Student(name, marks)\<close> contains the string form of the name and the string form
  of the marks, each as a contiguous piece.
\<close>

theorem display_contains_fields:
  "sublist (py_str n) (display (Student_init n m)) \<and>
   sublist (py_str m) (display (Student_init n m))"
  unfolding display_def Student_init_def
  by (simp del: append.simps) (metis append_assoc sublist_appendI sublist_append_leftI)

section \<open>Properties of check_age\<close>

text \<open>
  C2: \<^verbatim>\<open>check_age\<close> raises \<^verbatim>\<open>InvalidAgeError\<close> exactly when the age is below 18, and
  returns \<^verbatim>\<open>True\<close> for every age of 18 or more.  The exception raised carries the
  offending age and the default message, and its string form contains both.
\<close>

theorem check_age_spec:
  "((\<exists>e. check_age a = Inl e) \<longleftrightarrow> a < 18) \<and>
   (18 \<le> a \<longrightarrow> check_age a = Inr True) \<and>
   (a < 18 \<longrightarrow>
      (\<exists>e. check_age a = Inl e \<and> age e = a \<and> message e = ''Age must be 18 or older'' \<and>
           sublist (message e) (InvalidAgeError_str e) \<and>
           sublist (str_int (age e)) (InvalidAgeError_str e)))"
proof -
  have s: "sublist (message e) (InvalidAgeError_str e) \<and>
           sublist (str_int (age e)) (InvalidAgeError_str e)" for e
    unfolding InvalidAgeError_str_def
    by (metis append_assoc sublist_appendI sublist_append_rightI)
  show ?thesis
    using s by (simp add: check_age_def InvalidAgeError_init_def)
qed

text \<open>The theorem at the ages 18 and 17, with the string form of the exception.\<close>

theorem check_age_spec_witness:
  "check_age 18 = Inr True \<and>
   (\<exists>e. check_age 17 = Inl e \<and> age e = 17 \<and>
        InvalidAgeError_str e = ''Age must be 18 or older (got 17)'')"
proof -
  have "\<exists>e. check_age 17 = Inl e \<and> age e = 17 \<and> message e = ''Age must be 18 or older''"
    using check_age_spec [of 17] by auto
  then obtain e where e: "check_age 17 = Inl e" "age e = 17"
      "message e = ''Age must be 18 or older''"
    by blast
  have "str_int 17 = ''17''" by code_simp
  then have "InvalidAgeError_str e = ''Age must be 18 or older (got 17)''"
    using e by (simp add: InvalidAgeError_str_def)
  then show ?thesis
    using e check_age_spec [of 18] by auto
qed

section \<open>Properties of the Product price setter\<close>

text \<open>
  C6: assigning a negative value to \<^verbatim>\<open>price\<close> raises nothing and leaves the product
  as it was, printing only the message; assigning a value that is not negative makes
  \<^verbatim>\<open>price\<close> read back as that value, and prints nothing.
\<close>

theorem price_setter_spec:
  "(v < 0 \<longrightarrow> price_setter p v w = (p, print ''Price cannot be negative'' w)) \<and>
   (0 \<le> v \<longrightarrow> price (fst (price_setter p v w)) = Inr v \<and> snd (price_setter p v w) = w)"
  by (simp add: price_setter_def price_def)

text \<open>The theorem on a fresh product, at the values -5 and 7.\<close>

theorem price_setter_spec_witness:
  "price (fst (price_setter Product_init (- 5) \<lparr>stdout = [], files = Map.empty\<rparr>)) = Inr 0 \<and>
   stdout (snd (price_setter Product_init (- 5) \<lparr>stdout = [], files = Map.empty\<rparr>)) =
     [''Price cannot be negative''] \<and>
   price (fst (price_setter Product_init 7 \<lparr>stdout = [], files = Map.empty\<rparr>)) = Inr 7"
  using price_setter_spec [of "- 5" Product_init "\<lparr>stdout = [], files = Map.empty\<rparr>"]
    price_setter_spec [of 7 Product_init "\<lparr>stdout = [], files = Map.empty\<rparr>"]
  by (simp add: Product_init_def price_def print_def)

section \<open>Properties of the singleton decorator\<close>

lemma get_instance_cached:
  "instances st cls = Some r \<Longrightarrow> get_instance cls args st w = ((r, st), w)"
  by (simp add: get_instance_def)

lemma DatabaseConnection_calls_cached:
  "instances st DatabaseConnection_cls = Some r \<Longrightarrow>
     DatabaseConnection_calls cs st w = ((replicate (length cs) r, st), w)"
  by (induction cs) (simp_all add: get_instance_cached)

lemma get_instance_first:
  "get_instance DatabaseConnection_cls (h, u, p) singleton w =
     ((0, \<lparr>heap = [\<lparr>host = h, user = u, password = p\<rparr>],
           instances = [DatabaseConnection_cls \<mapsto> 0]\<rparr>),
      print (''Connecting to database at '' @ py_str h) w)"
  by (simp add: get_instance_def singleton_def DatabaseConnection_init_def)

text \<open>
  C3: in every sequence of calls of the decorated \<^verbatim>\<open>DatabaseConnection\<close>, the first
  call creates the instance (and prints the connection message once), and every call
  returns a reference to that one object, whatever its arguments; the object keeps the
  host, user and password of the first call.  After any sequence of calls, the empty
  one included, at most one \<^verbatim>\<open>DatabaseConnection\<close> object exists.
\<close>

theorem singleton_caches_first_instance:
  "DatabaseConnection_calls ((h, u, p) # rest) singleton w =
     ((replicate (Suc (length rest)) 0,
       \<lparr>heap = [\<lparr>host = h, user = u, password = p\<rparr>],
        instances = [DatabaseConnection_cls \<mapsto> 0]\<rparr>),
      print (''Connecting to database at '' @ py_str h) w) \<and>
   length (heap (snd (fst (DatabaseConnection_calls cs singleton w)))) \<le> 1"
proof -
  have first: "DatabaseConnection_calls ((h, u, p) # rest) singleton w =
     ((replicate (Suc (length rest)) 0,
       \<lparr>heap = [\<lparr>host = h, user = u, password = p\<rparr>],
        instances = [DatabaseConnection_cls \<mapsto> 0]\<rparr>),
      print (''Connecting to database at '' @ py_str h) w)" for h u p rest
    by (simp add: get_instance_first DatabaseConnection_calls_cached)
  have "length (heap (snd (fst (DatabaseConnection_calls cs singleton w)))) \<le> 1"
  proof (cases cs)
    case Nil
    then show ?thesis by (simp add: singleton_def)
  next
    case (Cons a rest)
    obtain h' u' p' where "a = (h', u', p')" by (cases a)
    then show ?thesis using Cons first [of h' u' p' rest] by simp
  qed
  then show ?thesis using first by simp
qed

section \<open>Properties of CustomRange\<close>

lemma range_length_step_pos:
  assumes "0 < stp" "lo < hi"
  shows "range_length lo hi stp = Suc (range_length (lo + stp) hi stp)"
proof (cases "lo + stp < hi")
  case True
  define a where "a = hi - 1 - (lo + stp)"
  have a0: "0 \<le> a" using True by (simp add: a_def)
  have "hi - 1 - lo = a + stp" by (simp add: a_def)
  then have "(hi - 1 - lo) div stp = a div stp + 1"
    using assms(1) by simp
  moreover have "0 \<le> a div stp"
    using a0 assms(1) by (simp add: pos_imp_zdiv_nonneg_iff)
  ultimately show ?thesis
    using assms True by (simp add: range_length_def a_def nat_add_distrib)
next
  case False
  then have "(hi - 1 - lo) div stp = 0"
    using assms by (simp add: div_pos_pos_trivial)
  then show ?thesis
    using assms False by (simp add: range_length_def)
qed

lemma range_length_step_neg:
  assumes "stp < 0" "hi < lo"
  shows "range_length lo hi stp = Suc (range_length (lo + stp) hi stp)"
proof (cases "hi < lo + stp")
  case True
  define a where "a = lo + stp - 1 - hi"
  have a0: "0 \<le> a" using True by (simp add: a_def)
  define s where "s = - stp"
  have s0: "0 < s" using assms(1) by (simp add: s_def)
  have "lo - 1 - hi = a + s" by (simp add: a_def s_def)
  then have "(lo - 1 - hi) div s = a div s + 1"
    using s0 by simp
  then have "(lo - 1 - hi) div (- stp) = a div (- stp) + 1"
    by (simp add: s_def)
  moreover have "0 \<le> a div (- stp)"
    using a0 assms(1) by (simp add: pos_imp_zdiv_nonneg_iff)
  ultimately show ?thesis
    using assms True by (simp add: range_length_def a_def nat_add_distrib)
next
  case False
  then have "(lo - 1 - hi) div (- stp) = 0"
    using assms by (simp add: div_pos_pos_trivial)
  then show ?thesis
    using assms False by (simp add: range_length_def)
qed

lemma range_length_stop:
  assumes "\<not> ((0 < stp \<and> lo < hi) \<or> (stp < 0 \<and> hi < lo))"
  shows "range_length lo hi stp = 0"
  using assms by (auto simp: range_length_def)

lemma map_upt_Suc_shift:
  "map f [0..<Suc n] = f 0 # map (\<lambda>i. f (Suc i)) [0..<n]"
  by (simp only: upt_conv_Cons [of 0 "Suc n"] zero_less_Suc if_True list.map
        map_Suc_upt [symmetric] map_map o_def)

lemma exhaust_eq:
  "exhaust it =
     map (\<lambda>i. current it + step it * int i) [0..<range_length (current it) (stop it) (step it)]"
proof (induction it rule: exhaust.induct)
  case (1 it)
  show ?case
  proof (cases "(0 < step it \<and> current it < stop it) \<or> (step it < 0 \<and> stop it < current it)")
    case True
    let ?it' = "it\<lparr>current := current it + step it\<rparr>"
    have nxt: "CustomRangeIterator_next it = Inr (current it, ?it')"
      using True by (auto simp: CustomRangeIterator_next_def)
    have len: "range_length (current it) (stop it) (step it) =
                 Suc (range_length (current it + step it) (stop it) (step it))"
      using True range_length_step_pos range_length_step_neg by blast
    have "exhaust it = current it # exhaust ?it'"
      by (subst exhaust.simps) (simp add: nxt)
    also have "exhaust ?it' =
        map (\<lambda>i. current it + step it + step it * int i)
          [0..<range_length (current it + step it) (stop it) (step it)]"
      using "1.IH" [OF nxt refl] by simp
    finally show ?thesis
      by (simp only: len map_upt_Suc_shift) (simp add: algebra_simps)
  next
    case False
    then have "CustomRangeIterator_next it = Inl StopIteration"
      by (auto simp: CustomRangeIterator_next_def)
    then have "exhaust it = []"
      by (subst exhaust.simps) simp
    then show ?thesis
      using range_length_stop [OF False] by simp
  qed
qed

text \<open>
  \<open>range_length\<close> counts the indices the language reference describes: \<open>i\<close> is within
  the range exactly when \<open>start + step*i\<close> is still on the near side of \<open>stop\<close>.
\<close>

lemma range_length_pos_iff:
  assumes "0 < stp"
  shows "i < range_length lo hi stp \<longleftrightarrow> lo + stp * int i < hi"
proof (induction i arbitrary: lo)
  case 0
  show ?case
    using assms range_length_step_pos [of stp lo hi] range_length_stop [of stp lo hi]
    by (cases "lo < hi") auto
next
  case (Suc i)
  show ?case
  proof (cases "lo < hi")
    case True
    then show ?thesis
      using assms Suc [of "lo + stp"] range_length_step_pos [of stp lo hi]
      by (simp add: algebra_simps)
  next
    case False
    have "0 \<le> stp * (1 + int i)" using assms by simp
    then have "\<not> lo + stp * int (Suc i) < hi" using False by simp
    then show ?thesis
      using assms False range_length_stop [of stp lo hi] by simp
  qed
qed

lemma range_length_neg_iff:
  assumes "stp < 0"
  shows "i < range_length lo hi stp \<longleftrightarrow> hi < lo + stp * int i"
proof (induction i arbitrary: lo)
  case 0
  show ?case
    using assms range_length_step_neg [of stp hi lo] range_length_stop [of stp lo hi]
    by (cases "hi < lo") auto
next
  case (Suc i)
  show ?case
  proof (cases "hi < lo")
    case True
    then show ?thesis
      using assms Suc [of "lo + stp"] range_length_step_neg [of stp hi lo]
      by (simp add: algebra_simps)
  next
    case False
    have "stp * (1 + int i) \<le> 0" using assms by (simp add: mult_le_0_iff)
    then have "\<not> hi < lo + stp * int (Suc i)" using False by simp
    then show ?thesis
      using assms False range_length_stop [of stp lo hi] by simp
  qed
qed

text \<open>
  C9: for a step other than 0, iterating \<^verbatim>\<open>CustomRange(start, stop, step)\<close> yields
  the same values, in the same order, as Python's built-in
  \<^verbatim>\<open>range(start, stop, step)\<close>.
\<close>

theorem CustomRange_refines_range:
  "stp \<noteq> 0 \<Longrightarrow> py_range lo hi stp = Inr (for_CustomRange (CustomRange_init lo hi stp))"
  by (simp add: py_range_def for_CustomRange_def CustomRange_iter_def CustomRange_init_def
      CustomRangeIterator_init_def exhaust_eq)

text \<open>The theorem at \<^verbatim>\<open>CustomRange(0, 10, 3)\<close>.\<close>

theorem CustomRange_refines_range_witness:
  "(3::int) \<noteq> 0 \<and> py_range 0 10 3 = Inr [0, 3, 6, 9] \<and>
   for_CustomRange (CustomRange_init 0 10 3) = [0, 3, 6, 9]"
proof -
  have r: "py_range 0 10 3 = Inr [0, 3, 6, 9]"
    by (simp add: py_range_def range_length_def upt_rec)
  show ?thesis
    using CustomRange_refines_range [of 3 0 10] r by simp
qed

section \<open>The two classes named Counter\<close>

text \<open>
  When only the class of section 2 is bound to the name, as it is until line 628 runs,
  section 2 of \<^verbatim>\<open>main\<close> counts the three constructions and prints 3.
\<close>

lemma Counter_first_class_counts_three:
  "main_section_2 globals_after_section_2 initial_class_store w =
     (Inr [Counter_cls \<mapsto> 3],
      print ''Total counters created: 3'' (print (CHR 0x0A # ''2. Using cls'') w))"
proof -
  have s: "str_int 3 = ''3''" by code_simp
  show ?thesis
  by (simp add: main_section_2_def new_Counter_def Counter_get_count_def class_get_count_def
      class_has_get_count_def globals_after_section_2_def Counter_init_def get_count_def
      class_statement_def initial_class_store_def s)
qed

text \<open>
  C1: in the module as it is, the name \<^verbatim>\<open>Counter\<close> denotes the class of line 628, so
  the three constructions of section 2 of \<^verbatim>\<open>main\<close> create objects of that class, the
  class variable of the first class stays 0, and \<^verbatim>\<open>Counter.get_count()\<close>, like
  \<^verbatim>\<open>get_count()\<close> on any of the three objects, raises \<^verbatim>\<open>AttributeError\<close> instead of
  returning 3.  Even the constructor of the first class, were it run, would raise: its
  \<^verbatim>\<open>Counter.count += 1\<close> reads \<^verbatim>\<open>count\<close> from the class of line 628, which has none.
\<close>

theorem main_section_2_raises:
  "main_section_2 module_globals initial_class_store w =
     (Inl AttributeError, print (CHR 0x0A # ''2. Using cls'') w) \<and>
   new_Counter module_globals initial_class_store =
     Inr (Counter2_inst Counter2_init, initial_class_store) \<and>
   instance_get_count (Counter2_inst Counter2_init) initial_class_store = Inl AttributeError \<and>
   Counter_init module_globals initial_class_store = Inl AttributeError"
  by (simp add: main_section_2_def new_Counter_def Counter_get_count_def class_get_count_def
      class_has_get_count_def module_globals_def globals_after_section_2_def
      class_statement_def instance_get_count_def class_of_def Counter_init_def
      initial_class_store_def)

section \<open>Properties of the Logger and its log file\<close>

lemma Logger_init_opens:
  "fst (Logger_init w) = \<lparr>log_file = Some \<lparr>file_path = ''log.txt'', file_closed = False\<rparr>\<rparr>"
  by (simp add: Logger_init_def open_append_def Let_def)

lemma Logger_init_world:
  "snd (Logger_init w) =
     (case files w ''log.txt'' of
        None \<Rightarrow> w\<lparr>stdout := stdout w @ [''Logger object created''],
                  files := (files w)(''log.txt'' \<mapsto> [])\<rparr>
      | Some c \<Rightarrow> w\<lparr>stdout := stdout w @ [''Logger object created'']\<rparr>)"
  by (simp add: Logger_init_def open_append_def Let_def print_def split: option.splits)

lemma destroy_closes:
  "log_file self = Some f \<Longrightarrow>
     destroy self w = (self\<lparr>log_file := Some (f\<lparr>file_closed := True\<rparr>)\<rparr>,
                       print ''Logger object destroyed'' w)"
  by (simp add: destroy_def file_close_def)

text \<open>
  Against C8 as stated: starting in a directory without \<^verbatim>\<open>log.txt\<close>, the file exists
  after the demonstration of resource cleanup.
\<close>

theorem log_file_remains_counterexample:
  "files \<lparr>stdout = [], files = Map.empty\<rparr> ''log.txt'' = None \<and>
   files (snd (main_section_6 \<lparr>stdout = [], files = Map.empty\<rparr>)) ''log.txt'' = Some []"
  by (simp add: main_section_6_def Logger_init_def open_append_def destroy_def print_def
      Let_def)

text \<open>
  C8, amended: the \<^verbatim>\<open>Logger\<close> constructor opens \<^verbatim>\<open>log.txt\<close> for appending, which
  creates it, empty, when it is absent; \<^verbatim>\<open>destroy()\<close> closes it; the demonstration of
  resource cleanup does both and never deletes the file, so \<^verbatim>\<open>log.txt\<close> exists after
  it, with the content it had before when it existed, and no other file is touched.
\<close>

theorem log_file_opened_closed_kept:
  "fst (Logger_init w) = \<lparr>log_file = Some \<lparr>file_path = ''log.txt'', file_closed = False\<rparr>\<rparr> \<and>
   fst (destroy (fst (Logger_init w)) w') =
     \<lparr>log_file = Some \<lparr>file_path = ''log.txt'', file_closed = True\<rparr>\<rparr> \<and>
   fst (main_section_6 w) =
     \<lparr>log_file = Some \<lparr>file_path = ''log.txt'', file_closed = True\<rparr>\<rparr> \<and>
   files (snd (main_section_6 w)) =
     (case files w ''log.txt'' of
        None \<Rightarrow> (files w)(''log.txt'' \<mapsto> [])
      | Some c \<Rightarrow> files w) \<and>
   files (snd (main_section_6 w)) ''log.txt'' \<noteq> None"
  by (simp add: main_section_6_def Logger_init_def open_append_def destroy_def print_def
      file_close_def Let_def split: option.splits)

section \<open>Which operations only print\<close>

lemma prints_onlyI: "(\<And>w. f w = (r, w\<lparr>stdout := stdout w @ out\<rparr>)) \<Longrightarrow> prints_only f"
  unfolding prints_only_def by blast



lemma prints_only_bind:
  assumes "prints_only f" and "\<And>r. prints_only (g r)"
  shows "prints_only (\<lambda>w. case f w of (r, w1) \<Rightarrow> g r w1)"
proof -
  obtain r out where f: "\<And>w. f w = (r, w\<lparr>stdout := stdout w @ out\<rparr>)"
    using assms(1) unfolding prints_only_def by blast
  obtain r' out' where g: "\<And>w. g r w = (r', w\<lparr>stdout := stdout w @ out'\<rparr>)"
    using assms(2) [of r] unfolding prints_only_def by blast
  show ?thesis
    by (rule prints_onlyI [where r = r' and out = "out @ out'"]) (simp add: f g)
qed









lemma Logger_init_not_prints_only: "\<not> prints_only Logger_init"
proof
  assume "prints_only Logger_init"
  then obtain r out where
    h: "\<And>w. Logger_init w = (r, w\<lparr>stdout := stdout w @ out\<rparr>)"
    unfolding prints_only_def by blast
  have "files (snd (Logger_init \<lparr>stdout = [], files = Map.empty\<rparr>)) ''log.txt'' = None"
    by (simp add: h)
  then show False
    by (simp add: Logger_init_def open_append_def Let_def print_def)
qed


end
